theory Spec2Isabelle
  imports Main "HOL-Library.Sublist"
begin

section \<open>Python values and string operations used by \<^verbatim>\<open>Validators.py\<close>\<close>

text \<open>
  The module branches on \<^verbatim>\<open>os.name\<close>: \<^verbatim>\<open>"nt"\<close> on the Windows family, \<^verbatim>\<open>"posix"\<close>
  otherwise. The family is a parameter of every operation that depends on it, so both
  branches of the module can be evaluated side by side.
\<close>

datatype os_family = Posix | Nt

definition os_name :: "os_family \<Rightarrow> string" where
  "os_name os = (case os of Posix \<Rightarrow> ''posix'' | Nt \<Rightarrow> ''nt'')"

definition bslash :: char where
  "bslash = CHR 0x5C"

definition dquote :: char where
  "dquote = CHR 0x22"

definition newline :: char where
  "newline = CHR 0x0A"

definition os_sep :: "os_family \<Rightarrow> char" where
  "os_sep os = (case os of Posix \<Rightarrow> CHR ''/'' | Nt \<Rightarrow> bslash)"

definition os_pathsep :: "os_family \<Rightarrow> char" where
  "os_pathsep os = (case os of Posix \<Rightarrow> CHR '':'' | Nt \<Rightarrow> CHR '';'')"

text \<open>
  Exceptions are values: the class and the message. \<open>EnvError\<close> stands for whatever an
  operating-system call raises (\<^verbatim>\<open>OSError\<close> and its subclasses from a directory
  listing, a process start or a decoding step); its message is given by the environment.
\<close>

datatype error =
    ValueError string
  | FileNotFoundError string
  | KeyError string
  | IndexError string
  | RuntimeError string
  | EnvError string

text \<open>\<^verbatim>\<open>str(e)\<close>: the message; a \<^verbatim>\<open>KeyError\<close> prints the repr of its key.\<close>

fun error_str :: "error \<Rightarrow> string" where
  "error_str (ValueError m) = m"
| "error_str (FileNotFoundError m) = m"
| "error_str (KeyError k) = [CHR 0x27] @ k @ [CHR 0x27]"
| "error_str (IndexError m) = m"
| "error_str (RuntimeError m) = m"
| "error_str (EnvError m) = m"

text \<open>
  Strings are lists of characters; only ASCII characters are inspected by the module
  (separators, digits, letters of the fixed names), and the classes below are the ASCII
  part of Python's \<^verbatim>\<open>str.isdigit\<close>, \<^verbatim>\<open>str.isspace\<close>, \<^verbatim>\<open>str.lower\<close> and \<^verbatim>\<open>str.upper\<close>.
\<close>

definition is_digit :: "char \<Rightarrow> bool" where
  "is_digit c = (48 \<le> (of_char c :: nat) \<and> (of_char c :: nat) \<le> 57)"

definition is_space :: "char \<Rightarrow> bool" where
  "is_space c = (let n = (of_char c :: nat) in (9 \<le> n \<and> n \<le> 13) \<or> (28 \<le> n \<and> n \<le> 32))"

definition chr_lower :: "char \<Rightarrow> char" where
  "chr_lower c = (let n = (of_char c :: nat) in if 65 \<le> n \<and> n \<le> 90 then char_of (n + 32) else c)"

definition chr_upper :: "char \<Rightarrow> char" where
  "chr_upper c = (let n = (of_char c :: nat) in if 97 \<le> n \<and> n \<le> 122 then char_of (n - 32) else c)"

definition str_lower :: "string \<Rightarrow> string" where
  "str_lower s = map chr_lower s"

definition str_upper :: "string \<Rightarrow> string" where
  "str_upper s = map chr_upper s"

text \<open>\<^verbatim>\<open>s.split(c)\<close> for a one-character separator: never empty, \<^verbatim>\<open>"".split(c) == [""]\<close>.\<close>

fun str_split :: "char \<Rightarrow> string \<Rightarrow> string list" where
  "str_split c [] = [[]]"
| "str_split c (x # xs) =
     (if x = c then [] # str_split c xs
      else (case str_split c xs of [] \<Rightarrow> [[x]] | y # ys \<Rightarrow> (x # y) # ys))"

text \<open>\<^verbatim>\<open>sep.join(xs)\<close>.\<close>

fun str_join :: "string \<Rightarrow> string list \<Rightarrow> string" where
  "str_join sep [] = []"
| "str_join sep [x] = x"
| "str_join sep (x # y # ys) = x @ sep @ str_join sep (y # ys)"

text \<open>\<^verbatim>\<open>s.replace(a, b)\<close> for one-character \<open>a\<close> and \<open>b\<close>.\<close>

definition str_replace :: "char \<Rightarrow> char \<Rightarrow> string \<Rightarrow> string" where
  "str_replace a b s = map (\<lambda>x. if x = a then b else x) s"

text \<open>\<^verbatim>\<open>s.find(c, start)\<close>: the first index at or after \<open>start\<close>, \<open>None\<close> for Python's \<open>-1\<close>.\<close>

fun find_index_from :: "char \<Rightarrow> string \<Rightarrow> nat \<Rightarrow> nat option" where
  "find_index_from c [] i = None"
| "find_index_from c (x # xs) i = (if x = c then Some i else find_index_from c xs (Suc i))"

definition str_find :: "string \<Rightarrow> char \<Rightarrow> nat \<Rightarrow> nat option" where
  "str_find s c start = find_index_from c (drop start s) start"

text \<open>\<^verbatim>\<open>s.strip()\<close>.\<close>

definition str_strip :: "string \<Rightarrow> string" where
  "str_strip s = rev (dropWhile is_space (rev (dropWhile is_space s)))"

section \<open>The pure-path operations of \<^verbatim>\<open>pathlib\<close>\<close>

text \<open>
  A \<^verbatim>\<open>Path\<close> is what its accessors expose: the drive, the root and the tail (the
  components after the anchor). Parsing follows \<^verbatim>\<open>posixpath.splitroot\<close> and
  \<^verbatim>\<open>ntpath.splitroot\<close> and \<^verbatim>\<open>PurePath._parse_path\<close> of CPython 3.12: empty and
  \<^verbatim>\<open>"."\<close> components are dropped, \<^verbatim>\<open>".."\<close> is kept, on Windows \<^verbatim>\<open>"/"\<close> is a separator too.
\<close>

record path =
  drive :: string
  root :: string
  tail :: "string list"

definition posix_splitroot :: "string \<Rightarrow> string \<times> string \<times> string" where
  "posix_splitroot p =
     (if take 1 p \<noteq> ''/'' then ('''', '''', p)
      else if take 1 (drop 1 p) \<noteq> ''/'' \<or> take 1 (drop 2 p) = ''/'' then ('''', ''/'', drop 1 p)
      else ('''', take 2 p, drop 2 p))"

definition unc_prefix :: string where
  "unc_prefix = [bslash, bslash, CHR ''?'', bslash, CHR ''U'', CHR ''N'', CHR ''C'', bslash]"

definition nt_splitroot :: "string \<Rightarrow> string \<times> string \<times> string" where
  "nt_splitroot p =
     (let normp = str_replace CHR ''/'' bslash p in
      if take 1 normp = [bslash] then
        (if take 1 (drop 1 normp) = [bslash] then
           (let start = (if str_upper (take 8 normp) = unc_prefix then 8 else 2) in
            case str_find normp bslash start of
              None \<Rightarrow> (p, '''', '''')
            | Some index \<Rightarrow>
                (case str_find normp bslash (index + 1) of
                   None \<Rightarrow> (p, '''', '''')
                 | Some index2 \<Rightarrow> (take index2 p, take 1 (drop index2 p), drop (index2 + 1) p)))
         else ('''', take 1 p, drop 1 p))
      else if take 1 (drop 1 normp) = '':'' then
        (if take 1 (drop 2 normp) = [bslash] then (take 2 p, take 1 (drop 2 p), drop 3 p)
         else (take 2 p, '''', drop 2 p))
      else ('''', '''', p))"

definition splitroot :: "os_family \<Rightarrow> string \<Rightarrow> string \<times> string \<times> string" where
  "splitroot os p = (case os of Posix \<Rightarrow> posix_splitroot p | Nt \<Rightarrow> nt_splitroot p)"

text \<open>
  \<^verbatim>\<open>_parse_path\<close>: a UNC drive without a root gets one; the rest is split at the
  separator and filtered.
\<close>

definition parse_path :: "os_family \<Rightarrow> string \<Rightarrow> path" where
  "parse_path os s =
     (if s = [] then \<lparr>drive = '''', root = '''', tail = []\<rparr>
      else
        let sep = os_sep os;
            p = (case os of Posix \<Rightarrow> s | Nt \<Rightarrow> str_replace CHR ''/'' sep s);
            (drv, rt, rel) = splitroot os p;
            rt' =
              (if rt = [] \<and> take 1 drv = [sep] \<and> \<not> (drv \<noteq> [] \<and> last drv = CHR ''$'') then
                 (let drv_parts = str_split sep drv in
                  if length drv_parts = 4 \<and> drv_parts ! 2 \<notin> {'''', ''?'', ''.'', ''?.''} then [sep]
                  else if length drv_parts = 6 then [sep]
                  else rt)
               else rt)
        in \<lparr>drive = drv, root = rt', tail = filter (\<lambda>x. x \<noteq> [] \<and> x \<noteq> ''.'') (str_split sep rel)\<rparr>)"

text \<open>\<^verbatim>\<open>Path(s)\<close>.\<close>

definition Path :: "os_family \<Rightarrow> string \<Rightarrow> path" where
  "Path os s = parse_path os s"

text \<open>
  \<^verbatim>\<open>str(p)\<close>: anchor and tail joined by the separator, \<^verbatim>\<open>"."\<close> for the empty path; a
  relative Windows path whose first component looks like a drive is written with
  a leading \<^verbatim>\<open>"."\<close> component.
\<close>

definition path_str :: "os_family \<Rightarrow> path \<Rightarrow> string" where
  "path_str os p =
     (let sep = [os_sep os];
          s = (if drive p \<noteq> [] \<or> root p \<noteq> [] then drive p @ root p @ str_join sep (tail p)
               else if tail p \<noteq> [] \<and> os = Nt \<and> fst (nt_splitroot (hd (tail p))) \<noteq> []
               then str_join sep (''.'' # tail p)
               else str_join sep (tail p))
      in if s = [] then ''.'' else s)"

text \<open>\<^verbatim>\<open>p.name\<close>: the last component of the tail, the empty string when there is none.\<close>

definition path_name :: "path \<Rightarrow> string" where
  "path_name p = (if tail p = [] then '''' else last (tail p))"

text \<open>\<^verbatim>\<open>posixpath.join(a, b)\<close> and \<^verbatim>\<open>ntpath.join(a, b)\<close>.\<close>

definition posix_join :: "string \<Rightarrow> string \<Rightarrow> string" where
  "posix_join a b =
     (if take 1 b = ''/'' then b
      else if a = [] \<or> last a = CHR ''/'' then a @ b
      else a @ ''/'' @ b)"

definition nt_join :: "string \<Rightarrow> string \<Rightarrow> string" where
  "nt_join a b =
     (let (result_drive, result_root, result_path) = nt_splitroot a;
          (p_drive, p_root, p_path) = nt_splitroot b;
          (rd, rr, rp) =
            (if p_root \<noteq> [] then
               ((if p_drive \<noteq> [] \<or> result_drive = [] then p_drive else result_drive), p_root, p_path)
             else if p_drive \<noteq> [] \<and> p_drive \<noteq> result_drive
                     \<and> str_lower p_drive \<noteq> str_lower result_drive then
               (p_drive, p_root, p_path)
             else
               ((if p_drive \<noteq> [] \<and> p_drive \<noteq> result_drive then p_drive else result_drive),
                result_root,
                (if result_path \<noteq> [] \<and> last result_path \<notin> {bslash, CHR ''/''}
                 then result_path @ [bslash] else result_path) @ p_path))
      in if rp \<noteq> [] \<and> rr = [] \<and> rd \<noteq> [] \<and> last rd \<notin> {CHR '':'', bslash, CHR ''/''}
         then rd @ [bslash] @ rp
         else rd @ rr @ rp)"

text \<open>\<^verbatim>\<open>p / s\<close>: the join of the path with a string segment, parsed again.\<close>

definition path_div :: "os_family \<Rightarrow> path \<Rightarrow> string \<Rightarrow> path" where
  "path_div os p s =
     parse_path os (case os of Posix \<Rightarrow> posix_join (path_str os p) s
                             | Nt \<Rightarrow> nt_join (path_str os p) s)"

text \<open>The child that \<^verbatim>\<open>iterdir\<close> yields for a directory entry: one more component.\<close>

definition path_child :: "path \<Rightarrow> string \<Rightarrow> path" where
  "path_child p entry = p\<lparr>tail := tail p @ [entry]\<rparr>"

section \<open>Regular expressions: the fragment of \<^verbatim>\<open>re\<close> that the module's patterns use\<close>

text \<open>
  A pattern is kept in parsed form. The matcher is a backtracking one, as Python's is:
  for a start state it lists the states after every way the pattern can match, in the
  order Python tries them (an earlier alternative first, a repetition as long as possible
  first), so the head of the list is the match Python reports. A state is the position,
  the text still to read and the groups captured so far. \<open>Bol\<close> is \<^verbatim>\<open>^\<close>; \<open>Eol\<close> is
  \<^verbatim>\<open>$\<close>, which also matches just before a final newline; \<open>Digit\<close> and \<open>Space\<close> are
  \<^verbatim>\<open>\d\<close> and \<^verbatim>\<open>\s\<close>; the flag is \<^verbatim>\<open>re.IGNORECASE\<close>.
\<close>

datatype cls_item = Digit | Space | Chr char

datatype regex =
    Eps
  | Lit char
  | Cls "cls_item list"
  | Bol
  | Eol
  | Seq regex regex
  | Alt regex regex
  | Star regex
  | Plus regex
  | Group nat regex

definition chr_eq :: "bool \<Rightarrow> char \<Rightarrow> char \<Rightarrow> bool" where
  "chr_eq ignorecase a c = (if ignorecase then chr_lower a = chr_lower c else a = c)"

fun item_matches :: "bool \<Rightarrow> cls_item \<Rightarrow> char \<Rightarrow> bool" where
  "item_matches ic Digit c = is_digit c"
| "item_matches ic Space c = is_space c"
| "item_matches ic (Chr a) c = chr_eq ic a c"

type_synonym mstate = "nat \<times> string \<times> (nat \<times> string) list"

fun rmatch :: "bool \<Rightarrow> regex \<Rightarrow> mstate \<Rightarrow> mstate list" where
  "rmatch ic Eps st = [st]"
| "rmatch ic (Lit a) (i, s, g) =
     (case s of [] \<Rightarrow> [] | c # cs \<Rightarrow> if chr_eq ic a c then [(Suc i, cs, g)] else [])"
| "rmatch ic (Cls items) (i, s, g) =
     (case s of [] \<Rightarrow> []
      | c # cs \<Rightarrow> if list_ex (\<lambda>it. item_matches ic it c) items then [(Suc i, cs, g)] else [])"
| "rmatch ic Bol (i, s, g) = (if i = 0 then [(i, s, g)] else [])"
| "rmatch ic Eol (i, s, g) = (if s = [] \<or> s = [newline] then [(i, s, g)] else [])"
| "rmatch ic (Seq a b) st = concat (map (rmatch ic b) (rmatch ic a st))"
| "rmatch ic (Alt a b) st = rmatch ic a st @ rmatch ic b st"
| "rmatch ic (Star a) (i, s, g) =
     concat (map (\<lambda>st'. if length (fst (snd st')) < length s then rmatch ic (Star a) st' else [])
                 (rmatch ic a (i, s, g))) @ [(i, s, g)]"
| "rmatch ic (Plus a) (i, s, g) =
     concat (map (\<lambda>st'. (if length (fst (snd st')) < length s then rmatch ic (Plus a) st' else []) @ [st'])
                 (rmatch ic a (i, s, g)))"
| "rmatch ic (Group n a) (i, s, g) =
     map (\<lambda>(i', s', g'). (i', s', (n, take (i' - i) s) # g')) (rmatch ic a (i, s, g))"

text \<open>A literal word, character by character.\<close>

fun lits :: "string \<Rightarrow> regex" where
  "lits [] = Eps"
| "lits (c # cs) = Seq (Lit c) (lits cs)"

text \<open>The numbers of the groups a pattern has.\<close>

fun group_ids :: "regex \<Rightarrow> nat list" where
  "group_ids (Seq a b) = group_ids a @ group_ids b"
| "group_ids (Alt a b) = group_ids a @ group_ids b"
| "group_ids (Star a) = group_ids a"
| "group_ids (Plus a) = group_ids a"
| "group_ids (Group n a) = n # group_ids a"
| "group_ids r = []"

text \<open>
  A match object: where the match starts and ends, and its groups. \<^verbatim>\<open>pattern.match\<close>
  tries position 0 only; \<^verbatim>\<open>re.search\<close> tries every position from the left and reports
  the first that matches.
\<close>

record match =
  m_start :: nat
  m_end :: nat
  m_groups :: "(nat \<times> string) list"

definition match_at :: "bool \<Rightarrow> regex \<Rightarrow> nat \<Rightarrow> string \<Rightarrow> match option" where
  "match_at ic r i s =
     (case rmatch ic r (i, s, []) of
        [] \<Rightarrow> None
      | (e, rest, g) # others \<Rightarrow> Some \<lparr>m_start = i, m_end = e, m_groups = g\<rparr>)"

definition re_match :: "bool \<Rightarrow> regex \<Rightarrow> string \<Rightarrow> match option" where
  "re_match ic r s = match_at ic r 0 s"

fun search_from :: "bool \<Rightarrow> regex \<Rightarrow> nat \<Rightarrow> string \<Rightarrow> match option" where
  "search_from ic r i [] = match_at ic r i []"
| "search_from ic r i (c # cs) =
     (case match_at ic r i (c # cs) of
        Some m \<Rightarrow> Some m
      | None \<Rightarrow> search_from ic r (Suc i) cs)"

definition re_search :: "bool \<Rightarrow> regex \<Rightarrow> string \<Rightarrow> match option" where
  "re_search ic r s = search_from ic r 0 s"

text \<open>
  \<^verbatim>\<open>m.group(n)\<close>: \<^verbatim>\<open>IndexError\<close> when the pattern has no group \<open>n\<close>, \<^verbatim>\<open>None\<close> when the
  group took no part in the match, its text otherwise.
\<close>

definition m_group :: "regex \<Rightarrow> match \<Rightarrow> nat \<Rightarrow> error + string option" where
  "m_group r m n =
     (if n \<in> set (group_ids r) then Inr (map_of (m_groups m) n)
      else Inl (IndexError ''no such group''))"

section \<open>\<^verbatim>\<open>Validators.py\<close>: platform defaults and vendor directories\<close>

text \<open>
  What the module reads of the machine: \<^verbatim>\<open>os.access(p, os.X_OK)\<close>, the entries
  \<^verbatim>\<open>os.listdir\<close> gives for a directory (or the error it raises) and \<^verbatim>\<open>Path.is_dir\<close>
  (which lets errors other than a missing file through). Paths reach the operating system
  as their \<^verbatim>\<open>str\<close>.
\<close>

record filesystem =
  access_X_OK :: "string \<Rightarrow> bool"
  listdir :: "string \<Rightarrow> error + string list"
  is_dir :: "string \<Rightarrow> error + bool"

text \<open>\<^verbatim>\<open>re.compile(r"^\d+\.\d+$")\<close>.\<close>

definition version_pattern :: regex where
  "version_pattern =
     Seq Bol (Seq (Plus (Cls [Digit])) (Seq (Lit CHR ''.'') (Seq (Plus (Cls [Digit])) Eol)))"

text \<open>
  \<^verbatim>\<open>int(s)\<close> on a string: surrounding whitespace is dropped, then an optional sign and
  decimal digits, single underscores allowed between digits.
\<close>

fun int_digits :: "string \<Rightarrow> string option" where
  "int_digits [] = None"
| "int_digits [d] = (if is_digit d then Some [d] else None)"
| "int_digits (d # x # xs) =
     (if is_digit d then
        map_option (Cons d) (int_digits (if x = CHR ''_'' then xs else x # xs))
      else None)"

definition digit_value :: "char \<Rightarrow> nat" where
  "digit_value c = of_char c - 48"

definition digits_value :: "string \<Rightarrow> nat" where
  "digits_value ds = foldl (\<lambda>acc d. 10 * acc + digit_value d) 0 ds"

definition py_int :: "string \<Rightarrow> error + int" where
  "py_int s =
     (let t = str_strip s;
          (neg, body) = (case t of c # cs \<Rightarrow> if c = CHR ''-'' then (True, cs)
                                              else if c = CHR ''+'' then (False, cs)
                                              else (False, t)
                                 | [] \<Rightarrow> (False, t))
      in case int_digits body of
           None \<Rightarrow> Inl (ValueError (''invalid literal for int() with base 10: '' @ s))
         | Some ds \<Rightarrow> Inr (if neg then - int (digits_value ds) else int (digits_value ds)))"

text \<open>\<^verbatim>\<open>tuple(map(int, name.split(".")))\<close>: the first \<^verbatim>\<open>int\<close> that raises ends it.\<close>

fun map_int :: "string list \<Rightarrow> error + int list" where
  "map_int [] = Inr []"
| "map_int (x # xs) =
     (case py_int x of
        Inl e \<Rightarrow> Inl e
      | Inr n \<Rightarrow> (case map_int xs of Inl e \<Rightarrow> Inl e | Inr ns \<Rightarrow> Inr (n # ns)))"

definition version_key :: "path \<Rightarrow> error + int list" where
  "version_key d = map_int (str_split CHR ''.'' (path_name d))"

text \<open>Python's order on tuples of integers: by the first difference, then by length.\<close>

fun tuple_less :: "int list \<Rightarrow> int list \<Rightarrow> bool" where
  "tuple_less [] [] = False"
| "tuple_less [] (y # ys) = True"
| "tuple_less (x # xs) [] = False"
| "tuple_less (x # xs) (y # ys) = (x < y \<or> (x = y \<and> tuple_less xs ys))"

text \<open>
  \<^verbatim>\<open>filter(lambda d: d.is_dir() and pattern.match(d.name), path.iterdir())\<close>, over the
  children in the order the listing gives them; an error of \<^verbatim>\<open>is_dir\<close> ends it.
\<close>

fun filter_versions :: "filesystem \<Rightarrow> path list \<Rightarrow> error + path list" where
  "filter_versions fs [] = Inr []"
| "filter_versions fs (d # ds) =
     (case is_dir fs (path_str Nt d) of
        Inl e \<Rightarrow> Inl e
      | Inr b \<Rightarrow>
          (case filter_versions fs ds of
             Inl e \<Rightarrow> Inl e
           | Inr rest \<Rightarrow>
               Inr (if b \<and> re_match False version_pattern (path_name d) \<noteq> None then d # rest
                    else rest)))"

text \<open>
  \<^verbatim>\<open>max(versions, key=...)\<close>: the first item with the greatest key; on no items Python
  raises \<^verbatim>\<open>ValueError\<close> (the message is the one of CPython 3.12).
\<close>

fun max_loop :: "path \<Rightarrow> int list \<Rightarrow> path list \<Rightarrow> error + path" where
  "max_loop best bestkey [] = Inr best"
| "max_loop best bestkey (d # ds) =
     (case version_key d of
        Inl e \<Rightarrow> Inl e
      | Inr k \<Rightarrow> if tuple_less bestkey k then max_loop d k ds else max_loop best bestkey ds)"

definition max_by_key :: "path list \<Rightarrow> error + path" where
  "max_by_key versions =
     (case versions of
        [] \<Rightarrow> Inl (ValueError ''max() iterable argument is empty'')
      | d # ds \<Rightarrow> (case version_key d of Inl e \<Rightarrow> Inl e | Inr k \<Rightarrow> max_loop d k ds))"

text \<open>
  \<^verbatim>\<open>_windowsLatestRocmBin\<close> (names lose their leading underscore). It exists on the
  Windows family only, so its paths are Windows paths.
\<close>

definition windowsLatestRocmBin :: "filesystem \<Rightarrow> string \<Rightarrow> error + path" where
  "windowsLatestRocmBin fs p =
     (let path = Path Nt p in
      case listdir fs (path_str Nt path) of
        Inl e \<Rightarrow> Inl e
      | Inr entries \<Rightarrow>
          (case filter_versions fs (map (path_child path) entries) of
             Inl e \<Rightarrow> Inl e
           | Inr versions \<Rightarrow>
               (case max_by_key versions of
                  Inl e \<Rightarrow> Inl e
                | Inr latest \<Rightarrow> Inr (path_div Nt latest ''bin''))))"

text \<open>
  The module's two globals, set when it is imported: fixed on POSIX, discovered on
  Windows (where an error of the discovery is an error of the import).
\<close>

record rocm_paths =
  ROCM_BIN_PATH :: path
  ROCM_LLVM_BIN_PATH :: path

definition module_globals :: "os_family \<Rightarrow> filesystem \<Rightarrow> error + rocm_paths" where
  "module_globals os fs =
     (if os_name os = ''nt'' then
        (case windowsLatestRocmBin fs ''C:/Program Files/AMD/ROCm'' of
           Inl e \<Rightarrow> Inl e
         | Inr b \<Rightarrow>
             (case windowsLatestRocmBin fs ''C:/Program Files/AMD/ROCm'' of
                Inl e \<Rightarrow> Inl e
              | Inr l \<Rightarrow> Inr \<lparr>ROCM_BIN_PATH = b, ROCM_LLVM_BIN_PATH = l\<rparr>))
      else Inr \<lparr>ROCM_BIN_PATH = Path os ''/opt/rocm/bin'',
                ROCM_LLVM_BIN_PATH = Path os ''/opt/rocm/lib/llvm/bin''\<rparr>)"

definition osSelect :: "os_family \<Rightarrow> 'a \<Rightarrow> 'a \<Rightarrow> 'a" where
  "osSelect os linux windows = (if os_name os \<noteq> ''nt'' then linux else windows)"

text \<open>\<^verbatim>\<open>ToolchainDefaults\<close>.\<close>

definition CXX_COMPILER :: "os_family \<Rightarrow> string" where
  "CXX_COMPILER os = osSelect os ''amdclang++'' ''clang++.exe''"

definition C_COMPILER :: "os_family \<Rightarrow> string" where
  "C_COMPILER os = osSelect os ''amdclang'' ''clang.exe''"

definition OFFLOAD_BUNDLER :: "os_family \<Rightarrow> string" where
  "OFFLOAD_BUNDLER os = osSelect os ''clang-offload-bundler'' ''clang-offload-bundler.exe''"

definition ASSEMBLER :: "os_family \<Rightarrow> string" where
  "ASSEMBLER os = osSelect os ''amdclang++'' ''clang++.exe''"

definition HIP_CONFIG :: "os_family \<Rightarrow> string" where
  "HIP_CONFIG os = osSelect os ''hipconfig'' ''hipconfig''"

section \<open>\<^verbatim>\<open>Validators.py\<close>: the component classifier\<close>

definition supportedComponent :: "os_family \<Rightarrow> string \<Rightarrow> string list \<Rightarrow> bool" where
  "supportedComponent os component targets =
     (list_ex (\<lambda>t. component = t) targets
      \<or> list_ex (\<lambda>t. path_name (Path os component) = t) targets)"

definition supportedCCompiler :: "os_family \<Rightarrow> string \<Rightarrow> bool" where
  "supportedCCompiler os compiler = supportedComponent os compiler [C_COMPILER os]"

definition supportedCxxCompiler :: "os_family \<Rightarrow> string \<Rightarrow> bool" where
  "supportedCxxCompiler os compiler = supportedComponent os compiler [CXX_COMPILER os]"

definition supportedOffloadBundler :: "os_family \<Rightarrow> string \<Rightarrow> bool" where
  "supportedOffloadBundler os bundler = supportedComponent os bundler [OFFLOAD_BUNDLER os]"

definition supportedHip :: "os_family \<Rightarrow> string \<Rightarrow> bool" where
  "supportedHip os smi = supportedComponent os smi [HIP_CONFIG os]"

section \<open>\<^verbatim>\<open>Validators.py\<close>: the executable resolver\<close>

definition exeExists :: "os_family \<Rightarrow> filesystem \<Rightarrow> path \<Rightarrow> bool" where
  "exeExists os fs file = (if access_X_OK fs (path_str os file) then True else False)"

text \<open>
  The resolver only reads the file system, so its effect is the sequence of paths it
  hands to \<^verbatim>\<open>os.access\<close>. Each function returns that sequence beside its outcome. The
  loop over the search paths stops at the first hit.
\<close>

fun search_loop :: "os_family \<Rightarrow> filesystem \<Rightarrow> string \<Rightarrow> path list \<Rightarrow> string list \<times> string option" where
  "search_loop os fs file [] = ([], None)"
| "search_loop os fs file (path # rest) =
     (let p = path_div os path file in
      if exeExists os fs p then ([path_str os p], Some (path_str os p))
      else (case search_loop os fs file rest of
              (probes, found) \<Rightarrow> (path_str os p # probes, found)))"

definition backquote :: char where
  "backquote = CHR 0x60"

definition unsupported_message :: "os_family \<Rightarrow> string \<Rightarrow> string" where
  "unsupported_message os file =
     file @ '' is not a supported toolchain component for OS: '' @ os_name os"

definition not_found_message :: "os_family \<Rightarrow> string \<Rightarrow> path list \<Rightarrow> string" where
  "not_found_message os file searchPaths =
     [backquote] @ file @ [backquote]
     @ '' either not found or not executable in any search path: ''
     @ str_join '':'' (map (path_str os) searchPaths)"

definition validateExecutable ::
  "os_family \<Rightarrow> filesystem \<Rightarrow> string \<Rightarrow> path list \<Rightarrow> string list \<times> (error + string)" where
  "validateExecutable os fs file searchPaths =
     (if \<not> (supportedCxxCompiler os file \<or> supportedCCompiler os file
             \<or> supportedOffloadBundler os file \<or> supportedHip os file)
      then ([], Inl (ValueError (unsupported_message os file)))
      else if exeExists os fs (Path os file) then ([path_str os (Path os file)], Inr file)
      else (case search_loop os fs file searchPaths of
              (probes, Some found) \<Rightarrow> (path_str os (Path os file) # probes, Inr found)
            | (probes, None) \<Rightarrow>
                (path_str os (Path os file) # probes,
                 Inl (FileNotFoundError (not_found_message os file searchPaths)))))"

text \<open>
  \<^verbatim>\<open>validateToolchain(*args)\<close>: one name gives a string, several give a tuple. The
  generator validates the names in order and the first error ends it. The environment is
  the dictionary \<^verbatim>\<open>os.environ\<close>; looking up a missing \<^verbatim>\<open>PATH\<close> raises \<^verbatim>\<open>KeyError\<close>.
\<close>

datatype resolved = Single string | Tuple "string list"

fun validate_each ::
  "os_family \<Rightarrow> filesystem \<Rightarrow> path list \<Rightarrow> string list \<Rightarrow> string list \<times> (error + string list)" where
  "validate_each os fs searchPaths [] = ([], Inr [])"
| "validate_each os fs searchPaths (x # xs) =
     (case validateExecutable os fs x searchPaths of
        (probes, Inl e) \<Rightarrow> (probes, Inl e)
      | (probes, Inr v) \<Rightarrow>
          (case validate_each os fs searchPaths xs of
             (probes', Inl e) \<Rightarrow> (probes @ probes', Inl e)
           | (probes', Inr vs) \<Rightarrow> (probes @ probes', Inr (v # vs))))"

definition search_paths :: "os_family \<Rightarrow> rocm_paths \<Rightarrow> string \<Rightarrow> path list" where
  "search_paths os g path_value =
     [ROCM_BIN_PATH g, ROCM_LLVM_BIN_PATH g]
     @ map (Path os) (str_split (os_pathsep os) path_value)"

definition validateToolchain ::
  "os_family \<Rightarrow> rocm_paths \<Rightarrow> filesystem \<Rightarrow> (string \<rightharpoonup> string) \<Rightarrow> string list
   \<Rightarrow> string list \<times> (error + resolved)" where
  "validateToolchain os g fs environ args =
     (if args = [] then
        ([], Inl (ValueError
           ''No toolchain components to validate, at least one argument is required''))
      else
        (case environ ''PATH'' of
           None \<Rightarrow> ([], Inl (KeyError ''PATH''))
         | Some path_value \<Rightarrow>
             (let searchPaths = search_paths os g path_value in
              if length args = 1 then
                (case validateExecutable os fs (hd args) searchPaths of
                   (probes, Inl e) \<Rightarrow> (probes, Inl e)
                 | (probes, Inr v) \<Rightarrow> (probes, Inr (Single v)))
              else
                (case validate_each os fs searchPaths args of
                   (probes, Inl e) \<Rightarrow> (probes, Inl e)
                 | (probes, Inr vs) \<Rightarrow> (probes, Inr (Tuple vs))))))"

section \<open>\<^verbatim>\<open>Validators.py\<close>: the version extractor\<close>

text \<open>
  \<^verbatim>\<open>run(args, stdout=PIPE, shell=True)\<close> hands the command line to the shell. It raises
  when the shell cannot be started; otherwise it returns the finished process, whatever
  its exit status (\<^verbatim>\<open>check\<close> is not set). Of the process the module reads
  \<^verbatim>\<open>.stdout.decode()\<close>: the text, or the error of the decoding.
\<close>

record completed_process =
  returncode :: int
  stdout_decode :: "error + string"

type_synonym shell = "string \<Rightarrow> error + completed_process"

text \<open>The default pattern \<^verbatim>\<open>r"version\s+([\d.]+)"\<close>, parsed.\<close>

definition default_regex :: regex where
  "default_regex =
     Seq (lits ''version'')
         (Seq (Plus (Cls [Space])) (Group 1 (Plus (Cls [Digit, Chr CHR ''.'']))))"

text \<open>\<^verbatim>\<open>f'"{executable}" "{versionFlag}"'\<close>.\<close>

definition version_args :: "string \<Rightarrow> string \<Rightarrow> string" where
  "version_args executable versionFlag =
     [dquote] @ executable @ [dquote] @ '' '' @ [dquote] @ versionFlag @ [dquote]"

text \<open>
  The body of the \<^verbatim>\<open>try\<close>; Python's \<^verbatim>\<open>None\<close> is \<open>None\<close>. The pattern arrives parsed:
  a pattern string that \<^verbatim>\<open>re\<close> cannot parse (\<^verbatim>\<open>re.error\<close>, raised inside the \<^verbatim>\<open>try\<close> and
  wrapped like every other error) has no counterpart here.
\<close>

definition getVersion_try :: "shell \<Rightarrow> string \<Rightarrow> regex \<Rightarrow> error + string option" where
  "getVersion_try run args regex =
     (case run args of
        Inl e \<Rightarrow> Inl e
      | Inr proc \<Rightarrow>
          (case stdout_decode proc of
             Inl e \<Rightarrow> Inl e
           | Inr text \<Rightarrow>
               (let output = str_strip text in
                case re_search True regex output of
                  None \<Rightarrow> Inr (Some ''<unknown>'')
                | Some m \<Rightarrow> m_group regex m 1)))"

definition getVersion :: "shell \<Rightarrow> string \<Rightarrow> string \<Rightarrow> regex \<Rightarrow> error + string option" where
  "getVersion run executable versionFlag regex =
     (let args = version_args executable versionFlag in
      case getVersion_try run args regex of
        Inl e \<Rightarrow>
          Inl (RuntimeError (''Failed to get version when calling '' @ args @ '': '' @ error_str e))
      | Inr v \<Rightarrow> Inr v)"

section \<open>Vocabulary of the specification and example environments\<close>

text \<open>A name is a toolchain component when any of the four predicates accepts it.\<close>

definition supported_any :: "os_family \<Rightarrow> string \<Rightarrow> bool" where
  "supported_any os file =
     (supportedCxxCompiler os file \<or> supportedCCompiler os file
      \<or> supportedOffloadBundler os file \<or> supportedHip os file)"

text \<open>The string the resolver probes and returns for a search directory: \<^verbatim>\<open>str(dir / file)\<close>.\<close>

definition candidate :: "os_family \<Rightarrow> string \<Rightarrow> path \<Rightarrow> string" where
  "candidate os file dir = path_str os (path_div os dir file)"

text \<open>
  The extension of a file name, as \<^verbatim>\<open>Path.suffix\<close> gives it: from the last dot on, when
  that dot is neither the first nor the last character.
\<close>

definition file_extension :: "string \<Rightarrow> string" where
  "file_extension name =
     (let e = takeWhile (\<lambda>c. c \<noteq> CHR ''.'') (rev name) in
      if e \<noteq> [] \<and> length e + 1 < length name then CHR ''.'' # rev e else '''')"

text \<open>The globals of the module on POSIX.\<close>

definition posix_globals :: rocm_paths where
  "posix_globals =
     \<lparr>ROCM_BIN_PATH = Path Posix ''/opt/rocm/bin'',
      ROCM_LLVM_BIN_PATH = Path Posix ''/opt/rocm/lib/llvm/bin''\<rparr>"

text \<open>Three machines: everything is executable; nothing is; only \<^verbatim>\<open>/usr/bin/amdclang++\<close> is.\<close>

definition fs_all_executable :: filesystem where
  "fs_all_executable =
     \<lparr>access_X_OK = (\<lambda>p. True), listdir = (\<lambda>p. Inr []), is_dir = (\<lambda>p. Inr False)\<rparr>"

definition fs_nothing :: filesystem where
  "fs_nothing =
     \<lparr>access_X_OK = (\<lambda>p. False), listdir = (\<lambda>p. Inr []), is_dir = (\<lambda>p. Inr False)\<rparr>"


text \<open>
  A Windows machine on which discovery found ROCm 6.1: both globals are its \<^verbatim>\<open>bin\<close>
  directory.
\<close>

definition nt_globals :: rocm_paths where
  "nt_globals =
     \<lparr>ROCM_BIN_PATH = Path Nt ''C:/Program Files/AMD/ROCm/6.1/bin'',
      ROCM_LLVM_BIN_PATH = Path Nt ''C:/Program Files/AMD/ROCm/6.1/bin''\<rparr>"

text \<open>
  A Windows machine with three ROCm versions and a stray file under the root, and one
  whose root holds no version directory.
\<close>

definition fs_three_versions :: filesystem where
  "fs_three_versions =
     \<lparr>access_X_OK = (\<lambda>p. False),
      listdir = (\<lambda>p. Inr [''9.5'', ''10.0'', ''9.8'', ''readme.txt'']),
      is_dir = (\<lambda>p. Inr (p \<noteq> ''C:'' @ [bslash] @ ''Program Files'' @ [bslash] @ ''AMD''
                               @ [bslash] @ ''ROCm'' @ [bslash] @ ''readme.txt''))\<rparr>"

definition fs_no_versions :: filesystem where
  "fs_no_versions =
     \<lparr>access_X_OK = (\<lambda>p. False),
      listdir = (\<lambda>p. Inr [''docs'', ''latest'']),
      is_dir = (\<lambda>p. Inr True)\<rparr>"

text \<open>
  The directories that discovery keeps among the children of the root: those that are
  directories and whose name matches the pattern.
\<close>

definition version_dirs :: "filesystem \<Rightarrow> path \<Rightarrow> string list \<Rightarrow> path list" where
  "version_dirs fs p entries =
     filter (\<lambda>d. is_dir fs (path_str Nt d) = Inr True
                  \<and> re_match False version_pattern (path_name d) \<noteq> None)
            (map (path_child p) entries)"

text \<open>
  \<open>not_newer d' d\<close>: both names give a (major, minor) pair of integers, and the pair of
  \<open>d'\<close> is numerically at most the pair of \<open>d\<close>.
\<close>

definition not_newer :: "path \<Rightarrow> path \<Rightarrow> bool" where
  "not_newer d' d =
     (\<exists>a b a' b'. version_key d = Inr [a, b] \<and> version_key d' = Inr [a', b']
        \<and> (a' < a \<or> (a' = a \<and> b' \<le> b)))"


definition shell_cannot_start :: shell where
  "shell_cannot_start = (\<lambda>cmd. Inl (EnvError ''[Errno 12] Cannot allocate memory''))"

definition shell_bad_output :: shell where
  "shell_bad_output = (\<lambda>cmd. Inr \<lparr>returncode = 0,
      stdout_decode = Inl (EnvError ''invalid start byte'')\<rparr>)"

definition shell_missing_executable :: shell where
  "shell_missing_executable = (\<lambda>cmd. Inr \<lparr>returncode = 127, stdout_decode = Inr ''''\<rparr>)"


section \<open>Properties of the string and path operations\<close>

lemma path_name_child: "path_name (path_child p entry) = entry"
  by (simp add: path_name_def path_child_def)

lemma str_split_notin: "c \<notin> set s \<Longrightarrow> str_split c s = [s]"
  by (induction s) auto

lemma take1_notin: "c \<notin> set s \<Longrightarrow> take 1 s \<noteq> [c]"
  by (cases s) auto

lemma take1_drop_notin: "c \<notin> set s \<Longrightarrow> take 1 (drop n s) \<noteq> [c]"
  by (metis in_set_dropD take1_notin)

lemma str_replace_notin: "a \<notin> set s \<Longrightarrow> str_replace a b s = s"
  by (induction s) (auto simp: str_replace_def)

text \<open>A bare name (no separator, no colon) is a path of one component.\<close>

lemma parse_path_bare:
  assumes "CHR ''/'' \<notin> set name" "bslash \<notin> set name" "CHR '':'' \<notin> set name"
    and "name \<noteq> []" "name \<noteq> ''.''"
  shows "parse_path os name = \<lparr>drive = '''', root = '''', tail = [name]\<rparr>"
proof (cases os)
  case Posix
  have "posix_splitroot name = ('''', '''', name)"
    using assms(1) take1_notin[of "CHR ''/''" name] by (simp add: posix_splitroot_def)
  then show ?thesis
    using assms Posix by (simp add: parse_path_def splitroot_def os_sep_def str_split_notin)
next
  case Nt
  have "nt_splitroot name = ('''', '''', name)"
    using assms take1_notin[of bslash name] take1_drop_notin[of "CHR '':''" name 1]
    by (simp add: nt_splitroot_def str_replace_notin)
  then show ?thesis
    using assms Nt
    by (simp add: parse_path_def splitroot_def os_sep_def str_split_notin str_replace_notin)
qed

lemma path_name_bare:
  assumes "CHR ''/'' \<notin> set name" "bslash \<notin> set name" "CHR '':'' \<notin> set name"
    and "name \<noteq> ''.''"
  shows "path_name (Path os name) = name"
proof (cases "name = []")
  case True
  then show ?thesis by (simp add: path_name_def Path_def parse_path_def)
next
  case False
  then show ?thesis using assms by (simp add: Path_def parse_path_bare path_name_def)
qed

section \<open>The component classifier\<close>

lemma supportedComponent_single:
  "supportedComponent os component [t] \<longleftrightarrow> component = t \<or> path_name (Path os component) = t"
  by (simp add: supportedComponent_def)

text \<open>
  Claim C2. On either family and for each of the four roles, a name is supported exactly
  when it is the role's default name or its final path component (\<^verbatim>\<open>Path(name).name\<close>) is.
  Nothing else is accepted: for a bare name (no separator, no drive colon) being
  supported is being equal to the default name, so \<^verbatim>\<open>clang++-17\<close> is rejected by every
  role and so is the default name in upper case.
\<close>

theorem classifier_whitelist:
  "(supportedCCompiler os name \<longleftrightarrow>
      name = C_COMPILER os \<or> path_name (Path os name) = C_COMPILER os)
   \<and> (supportedCxxCompiler os name \<longleftrightarrow>
      name = CXX_COMPILER os \<or> path_name (Path os name) = CXX_COMPILER os)
   \<and> (supportedOffloadBundler os name \<longleftrightarrow>
      name = OFFLOAD_BUNDLER os \<or> path_name (Path os name) = OFFLOAD_BUNDLER os)
   \<and> (supportedHip os name \<longleftrightarrow>
      name = HIP_CONFIG os \<or> path_name (Path os name) = HIP_CONFIG os)
   \<and> (CHR ''/'' \<notin> set name \<and> bslash \<notin> set name \<and> CHR '':'' \<notin> set name \<and> name \<noteq> ''.'' \<longrightarrow>
        (supportedCCompiler os name \<longleftrightarrow> name = C_COMPILER os)
        \<and> (supportedCxxCompiler os name \<longleftrightarrow> name = CXX_COMPILER os)
        \<and> (supportedOffloadBundler os name \<longleftrightarrow> name = OFFLOAD_BUNDLER os)
        \<and> (supportedHip os name \<longleftrightarrow> name = HIP_CONFIG os))
   \<and> \<not> supported_any os ''clang++-17''
   \<and> \<not> supported_any os (str_upper (CXX_COMPILER os))"
proof -
  have bare: "path_name (Path os name) = name"
    if "CHR ''/'' \<notin> set name \<and> bslash \<notin> set name \<and> CHR '':'' \<notin> set name \<and> name \<noteq> ''.''"
    using that by (simp add: path_name_bare)
  have v: "path_name (Path os ''clang++-17'') = ''clang++-17''"
    by (rule path_name_bare) (simp_all add: bslash_def)
  have up: "str_upper ''amdclang++'' = ''AMDCLANG++''" "str_upper ''clang++.exe'' = ''CLANG++.EXE''"
    by code_simp+
  have u: "path_name (Path os (str_upper (CXX_COMPILER os))) = str_upper (CXX_COMPILER os)"
    by (cases os; rule path_name_bare)
       (simp_all add: bslash_def CXX_COMPILER_def osSelect_def os_name_def up)
  have n17: "\<not> supported_any os ''clang++-17''"
    using v
    by (cases os)
       (simp_all add: supported_any_def supportedCCompiler_def supportedCxxCompiler_def
          supportedOffloadBundler_def supportedHip_def supportedComponent_single
          C_COMPILER_def CXX_COMPILER_def OFFLOAD_BUNDLER_def HIP_CONFIG_def osSelect_def os_name_def)
  have nup: "\<not> supported_any os (str_upper (CXX_COMPILER os))"
    using u
    by (cases os)
       (simp_all add: supported_any_def supportedCCompiler_def supportedCxxCompiler_def
          supportedOffloadBundler_def supportedHip_def supportedComponent_single
          C_COMPILER_def CXX_COMPILER_def OFFLOAD_BUNDLER_def HIP_CONFIG_def osSelect_def os_name_def
          up)
  show ?thesis
    using bare n17 nup
    by (auto simp: supportedCCompiler_def supportedCxxCompiler_def
          supportedOffloadBundler_def supportedHip_def supportedComponent_single)
qed

theorem classifier_whitelist_witness:
  "supportedCxxCompiler Posix ''amdclang++'' \<and> supportedCxxCompiler Posix ''/usr/bin/amdclang++''
   \<and> \<not> supportedCxxCompiler Posix ''amdclang++-bogus''
   \<and> \<not> supportedCxxCompiler Nt ''Clang++.exe''
   \<and> supportedCCompiler Nt ''C:/Program Files/AMD/ROCm/6.1/bin/clang.exe''
   \<and> \<not> supported_any Posix ''clang++-17''"
proof -
  have a: "path_name (Path Posix ''/usr/bin/amdclang++'') = ''amdclang++''" by code_simp
  have b: "path_name (Path Nt ''C:/Program Files/AMD/ROCm/6.1/bin/clang.exe'') = ''clang.exe''"
    by code_simp
  have c: "path_name (Path Posix ''amdclang++-bogus'') = ''amdclang++-bogus''" by code_simp
  have d: "path_name (Path Nt ''Clang++.exe'') = ''Clang++.exe''" by code_simp
  show ?thesis
    using classifier_whitelist[of Posix "''amdclang++''"]
      classifier_whitelist[of Posix "''/usr/bin/amdclang++''"]
      classifier_whitelist[of Posix "''amdclang++-bogus''"]
      classifier_whitelist[of Nt "''Clang++.exe''"]
      classifier_whitelist[of Nt "''C:/Program Files/AMD/ROCm/6.1/bin/clang.exe''"]
      a b c d
    by (simp add: bslash_def CXX_COMPILER_def C_COMPILER_def osSelect_def os_name_def)
qed

section \<open>The executable resolver\<close>


lemma search_loop_none:
  "(\<forall>d\<in>set sps. \<not> access_X_OK fs (candidate os name d))
   \<Longrightarrow> search_loop os fs name sps = (map (candidate os name) sps, None)"
  by (induction sps) (simp_all add: exeExists_def candidate_def Let_def)

lemma validateExecutable_unsupported:
  "\<not> supported_any os name \<Longrightarrow>
   validateExecutable os fs name sps = ([], Inl (ValueError (unsupported_message os name)))"
  by (simp add: validateExecutable_def supported_any_def)



lemma validateExecutable_not_found:
  "supported_any os name \<Longrightarrow> \<not> access_X_OK fs (path_str os (Path os name)) \<Longrightarrow>
   (\<forall>d\<in>set sps. \<not> access_X_OK fs (candidate os name d)) \<Longrightarrow>
   validateExecutable os fs name sps =
     (path_str os (Path os name) # map (candidate os name) sps,
      Inl (FileNotFoundError (not_found_message os name sps)))"
  by (simp add: validateExecutable_def supported_any_def exeExists_def search_loop_none)

lemma validateToolchain_single:
  "environ ''PATH'' = Some pv \<Longrightarrow>
   validateToolchain os g fs environ [name] =
     (case validateExecutable os fs name (search_paths os g pv) of
        (probes, Inl e) \<Rightarrow> (probes, Inl e)
      | (probes, Inr v) \<Rightarrow> (probes, Inr (Single v)))"
  by (simp add: validateToolchain_def)




lemma sublist_middle: "sublist xs (ps @ xs @ ss)"
  by (metis sublist_appendI)

lemma sublist_after: "sublist xs ys \<Longrightarrow> sublist xs (ps @ ys)"
  unfolding sublist_def by (metis append.assoc)



text \<open>
  Claim C8. With no argument the resolver raises the \<^verbatim>\<open>ValueError\<close> for a missing
  argument, which is not a \<^verbatim>\<open>FileNotFoundError\<close>; nothing has been classified or probed,
  and the environment has not been read (the outcome is the same with \<^verbatim>\<open>PATH\<close> unset).
\<close>

theorem empty_input_is_misuse:
  "validateToolchain os g fs environ [] =
     ([], Inl (ValueError
        ''No toolchain components to validate, at least one argument is required''))
   \<and> (\<forall>m. snd (validateToolchain os g fs environ []) \<noteq> Inl (FileNotFoundError m))"
  by (simp add: validateToolchain_def)

theorem empty_input_is_misuse_witness:
  "validateToolchain Posix posix_globals fs_all_executable Map.empty [] =
     ([], Inl (ValueError
        ''No toolchain components to validate, at least one argument is required''))"
  using empty_input_is_misuse[of Posix posix_globals fs_all_executable Map.empty] by simp

lemma empty_string_unsupported: "\<not> supported_any os ''''"
proof -
  have "path_name (Path os '''') = ''''"
    by (simp add: path_name_def Path_def parse_path_def)
  then show ?thesis
    by (cases os)
       (simp_all add: supported_any_def supportedCCompiler_def supportedCxxCompiler_def
          supportedOffloadBundler_def supportedHip_def supportedComponent_single
          C_COMPILER_def CXX_COMPILER_def OFFLOAD_BUNDLER_def HIP_CONFIG_def osSelect_def os_name_def)
qed

text \<open>
  Claim C10, as amended: whenever \<^verbatim>\<open>PATH\<close> is set. The empty string is accepted by no
  role (neither it nor its empty \<^verbatim>\<open>Path("").name\<close> is a default name), so the resolver
  called with the one argument \<^verbatim>\<open>""\<close> raises the unsupported-component
  \<^verbatim>\<open>ValueError\<close> without a probe; that is neither the error for a missing argument
  nor a \<^verbatim>\<open>FileNotFoundError\<close>.
\<close>

theorem empty_string_is_unsupported:
  assumes "environ ''PATH'' = Some pv"
  shows "\<not> supported_any os ''''
         \<and> path_name (Path os '''') = ''''
         \<and> validateToolchain os g fs environ [''''] =
             ([], Inl (ValueError ('' is not a supported toolchain component for OS: '' @ os_name os)))
         \<and> snd (validateToolchain os g fs environ ['''']) \<noteq>
             Inl (ValueError
               ''No toolchain components to validate, at least one argument is required'')
         \<and> (\<forall>m. snd (validateToolchain os g fs environ ['''']) \<noteq> Inl (FileNotFoundError m))"
proof -
  have p: "path_name (Path os '''') = ''''"
    by (simp add: path_name_def Path_def parse_path_def)
  have v: "validateToolchain os g fs environ [''''] =
      ([], Inl (ValueError ('' is not a supported toolchain component for OS: '' @ os_name os)))"
    using assms
    by (simp add: validateToolchain_single validateExecutable_unsupported
          empty_string_unsupported unsupported_message_def)
  show ?thesis
    using p v empty_string_unsupported[of os] by simp
qed

theorem empty_string_is_unsupported_witness:
  "validateToolchain Posix posix_globals fs_all_executable [''PATH'' \<mapsto> ''/usr/bin''] [''''] =
     ([], Inl (ValueError '' is not a supported toolchain component for OS: posix''))"
proof -
  have e: "[''PATH'' \<mapsto> ''/usr/bin''] ''PATH'' = Some ''/usr/bin''" by simp
  show ?thesis
    using empty_string_is_unsupported[where environ = "[''PATH'' \<mapsto> ''/usr/bin'']"
        and pv = "''/usr/bin''" and os = Posix and g = posix_globals and fs = fs_all_executable,
        OF e]
    by (simp add: os_name_def)
qed

text \<open>
  The claim as stated fails where \<^verbatim>\<open>PATH\<close> is not set: the one argument \<^verbatim>\<open>""\<close> passes
  the test for a missing argument, and then \<^verbatim>\<open>os.environ["PATH"]\<close> raises \<^verbatim>\<open>KeyError\<close>
  before the name is classified.
\<close>

theorem empty_string_without_PATH_counterexample:
  "validateToolchain Posix posix_globals fs_nothing Map.empty [''''] = ([], Inl (KeyError ''PATH''))
   \<and> snd (validateToolchain Posix posix_globals fs_nothing Map.empty ['''']) \<noteq>
       Inl (ValueError (unsupported_message Posix ''''))"
  by (simp add: validateToolchain_def)

text \<open>
  What the resolver reports when nothing is found, on either family: the
  \<^verbatim>\<open>FileNotFoundError\<close> whose message ends with the \<^verbatim>\<open>str\<close> of every search path, in
  order, joined by a colon. On POSIX the colon is \<^verbatim>\<open>os.pathsep\<close>.
\<close>

lemma not_found_lists_search_paths:
  assumes "supported_any os name"
    and "\<not> access_X_OK fs (path_str os (Path os name))"
    and "\<forall>d\<in>set sps. \<not> access_X_OK fs (candidate os name d)"
  shows "snd (validateExecutable os fs name sps)
           = Inl (FileNotFoundError (not_found_message os name sps))
         \<and> suffix (str_join '':'' (map (path_str os) sps)) (not_found_message os name sps)
         \<and> [os_pathsep Posix] = '':''"
  using assms
  by (simp add: validateExecutable_not_found not_found_message_def os_pathsep_def suffix_def)

lemma str_join_contains: "d \<in> set ds \<Longrightarrow> sublist d (str_join sep ds)"
proof (induction sep ds rule: str_join.induct)
  case (1 sep)
  then show ?case by simp
next
  case (2 sep x)
  then show ?case by simp
next
  case (3 sep x y ys)
  show ?case
  proof (cases "d = x")
    case True
    then show ?thesis using sublist_middle[of x "[]"] by simp
  next
    case False
    with 3 have "sublist d (str_join sep (y # ys))" by simp
    then have "sublist d (x @ sep @ str_join sep (y # ys))"
      by (intro sublist_after)
    then show ?thesis by simp
  qed
qed

lemma not_found_message_contains:
  "d \<in> set sps \<Longrightarrow> sublist (path_str os d) (not_found_message os name sps)"
proof -
  assume "d \<in> set sps"
  then have "sublist (path_str os d) (str_join '':'' (map (path_str os) sps))"
    by (simp add: str_join_contains)
  then show ?thesis
    unfolding not_found_message_def
    by (intro sublist_after)
qed

text \<open>
  Claim C4 at a Windows input. \<^verbatim>\<open>PATH\<close> is split at \<^verbatim>\<open>os.pathsep\<close>, the semicolon, but
  the message joins the searched directories with a colon: it reads
  \<^verbatim>\<open>...6.1\bin:C:\Program Files\AMD\ROCm\6.1\bin:C:\Windows:C:\tools\<close>, and the
  semicolon-joined search path is not part of it.
\<close>

theorem not_found_message_on_windows:
  "validateToolchain Nt nt_globals fs_nothing [''PATH'' \<mapsto> ''C:/Windows;C:/tools''] [''clang.exe''] =
     ([''clang.exe'',
       ''C:'' @ [bslash] @ ''Program Files'' @ [bslash] @ ''AMD'' @ [bslash] @ ''ROCm''
         @ [bslash] @ ''6.1'' @ [bslash] @ ''bin'' @ [bslash] @ ''clang.exe'',
       ''C:'' @ [bslash] @ ''Program Files'' @ [bslash] @ ''AMD'' @ [bslash] @ ''ROCm''
         @ [bslash] @ ''6.1'' @ [bslash] @ ''bin'' @ [bslash] @ ''clang.exe'',
       ''C:'' @ [bslash] @ ''Windows'' @ [bslash] @ ''clang.exe'',
       ''C:'' @ [bslash] @ ''tools'' @ [bslash] @ ''clang.exe''],
      Inl (FileNotFoundError
        ([backquote] @ ''clang.exe'' @ [backquote]
         @ '' either not found or not executable in any search path: ''
         @ ''C:'' @ [bslash] @ ''Program Files'' @ [bslash] @ ''AMD'' @ [bslash] @ ''ROCm''
         @ [bslash] @ ''6.1'' @ [bslash] @ ''bin''
         @ '':C:'' @ [bslash] @ ''Program Files'' @ [bslash] @ ''AMD'' @ [bslash] @ ''ROCm''
         @ [bslash] @ ''6.1'' @ [bslash] @ ''bin''
         @ '':C:'' @ [bslash] @ ''Windows''
         @ '':C:'' @ [bslash] @ ''tools'')))
   \<and> \<not> sublist
         (str_join [os_pathsep Nt]
            (map (path_str Nt) (search_paths Nt nt_globals ''C:/Windows;C:/tools'')))
         (not_found_message Nt ''clang.exe'' (search_paths Nt nt_globals ''C:/Windows;C:/tools''))"
proof -
  let ?bin = "''C:'' @ [bslash] @ ''Program Files'' @ [bslash] @ ''AMD'' @ [bslash] @ ''ROCm''
         @ [bslash] @ ''6.1'' @ [bslash] @ ''bin''"
  let ?sps = "search_paths Nt nt_globals ''C:/Windows;C:/tools''"
  let ?semi = "?bin @ '';'' @ ?bin @ '';C:'' @ [bslash] @ ''Windows'' @ '';C:'' @ [bslash] @ ''tools''"
  let ?msg = "[backquote] @ ''clang.exe'' @ [backquote]
         @ '' either not found or not executable in any search path: ''
         @ ?bin @ '':'' @ ?bin @ '':C:'' @ [bslash] @ ''Windows'' @ '':C:'' @ [bslash] @ ''tools''"
  have res: "validateToolchain Nt nt_globals fs_nothing [''PATH'' \<mapsto> ''C:/Windows;C:/tools'']
       [''clang.exe''] =
     ([''clang.exe'', ?bin @ [bslash] @ ''clang.exe'', ?bin @ [bslash] @ ''clang.exe'',
       ''C:'' @ [bslash] @ ''Windows'' @ [bslash] @ ''clang.exe'',
       ''C:'' @ [bslash] @ ''tools'' @ [bslash] @ ''clang.exe''],
      Inl (FileNotFoundError ?msg))"
    by code_simp
  have needle: "str_join [os_pathsep Nt] (map (path_str Nt) ?sps) = ?semi"
    by code_simp
  have msg: "not_found_message Nt ''clang.exe'' ?sps = ?msg"
    by code_simp
  have ns: "\<not> sublist ?semi ?msg"
    by code_simp
  show ?thesis
    using res ns by (simp only: needle msg) simp
qed

section \<open>Platform defaults\<close>

text \<open>
  Claim C9, as amended. On Windows the default names of the C compiler, the C++ compiler
  and the offload bundler carry the extension \<^verbatim>\<open>.exe\<close>, and the compiler drivers
  (\<^verbatim>\<open>clang.exe\<close>, \<^verbatim>\<open>clang++.exe\<close>) differ from the POSIX ones (\<^verbatim>\<open>amdclang\<close>,
  \<^verbatim>\<open>amdclang++\<close>). The device-info tool is \<^verbatim>\<open>hipconfig\<close>, with no extension, on both
  families. The POSIX names have no extension.
\<close>

theorem windows_defaults:
  "file_extension (C_COMPILER Nt) = ''.exe''
   \<and> file_extension (CXX_COMPILER Nt) = ''.exe''
   \<and> file_extension (OFFLOAD_BUNDLER Nt) = ''.exe''
   \<and> HIP_CONFIG Nt = ''hipconfig'' \<and> HIP_CONFIG Posix = ''hipconfig''
   \<and> C_COMPILER Nt = ''clang.exe'' \<and> C_COMPILER Posix = ''amdclang''
   \<and> CXX_COMPILER Nt = ''clang++.exe'' \<and> CXX_COMPILER Posix = ''amdclang++''
   \<and> OFFLOAD_BUNDLER Nt = ''clang-offload-bundler.exe''
   \<and> OFFLOAD_BUNDLER Posix = ''clang-offload-bundler''
   \<and> file_extension (C_COMPILER Posix) = '''' \<and> file_extension (CXX_COMPILER Posix) = ''''
   \<and> file_extension (OFFLOAD_BUNDLER Posix) = '''' \<and> file_extension (HIP_CONFIG Posix) = ''''"
  by (simp add: file_extension_def C_COMPILER_def CXX_COMPILER_def OFFLOAD_BUNDLER_def
        HIP_CONFIG_def osSelect_def os_name_def)

text \<open>
  The claim as stated fails at the fourth role: the Windows default of the device-info
  tool has no extension (its name has no dot at all).
\<close>

theorem windows_hipconfig_counterexample:
  "\<not> (file_extension (C_COMPILER Nt) \<noteq> '''' \<and> file_extension (CXX_COMPILER Nt) \<noteq> ''''
       \<and> file_extension (OFFLOAD_BUNDLER Nt) \<noteq> '''' \<and> file_extension (HIP_CONFIG Nt) \<noteq> '''')
   \<and> file_extension (HIP_CONFIG Nt) = ''''
   \<and> CHR ''.'' \<notin> set (HIP_CONFIG Nt)"
  by (simp add: file_extension_def HIP_CONFIG_def osSelect_def os_name_def)

section \<open>Vendor-directory discovery on Windows\<close>

subsection \<open>Names that match the version pattern\<close>

lemma digit_facts:
  assumes "is_digit c"
  shows "\<not> is_space c" "c \<noteq> CHR ''.''" "c \<noteq> CHR ''-''" "c \<noteq> CHR ''+''" "c \<noteq> CHR ''_''"
    "c \<noteq> newline"
  using assms by (auto simp: is_digit_def is_space_def newline_def Let_def)

lemma plus_digit_Nil: "rmatch ic (Plus (Cls [Digit])) (i, [], g) = []"
  by simp

lemma plus_digit_Cons:
  "rmatch ic (Plus (Cls [Digit])) (i, c # cs, g) =
     (if is_digit c then rmatch ic (Plus (Cls [Digit])) (Suc i, cs, g) @ [(Suc i, cs, g)] else [])"
  by simp

lemma plus_digit_shape:
  "st \<in> set (rmatch ic (Plus (Cls [Digit])) (i, s, g))
   \<Longrightarrow> \<exists>ds. ds \<noteq> [] \<and> list_all is_digit ds \<and> s = ds @ fst (snd st)"
proof (induction s arbitrary: i)
  case Nil
  then show ?case by (simp only: plus_digit_Nil) simp
next
  case (Cons c cs)
  from Cons.prems have
    "st \<in> set (if is_digit c
               then rmatch ic (Plus (Cls [Digit])) (Suc i, cs, g) @ [(Suc i, cs, g)] else [])"
    by (simp only: plus_digit_Cons)
  then have d: "is_digit c"
    and m: "st \<in> set (rmatch ic (Plus (Cls [Digit])) (Suc i, cs, g)) \<or> st = (Suc i, cs, g)"
    by (auto simp del: rmatch.simps split: if_splits)
  from m show ?case
  proof
    assume "st \<in> set (rmatch ic (Plus (Cls [Digit])) (Suc i, cs, g))"
    from Cons.IH[OF this] obtain ds where
      "ds \<noteq> []" "list_all is_digit ds" "cs = ds @ fst (snd st)" by blast
    with d have "c # ds \<noteq> [] \<and> list_all is_digit (c # ds) \<and> c # cs = (c # ds) @ fst (snd st)"
      by simp
    then show ?thesis by blast
  next
    assume "st = (Suc i, cs, g)"
    with d have "[c] \<noteq> [] \<and> list_all is_digit [c] \<and> c # cs = [c] @ fst (snd st)" by simp
    then show ?thesis by blast
  qed
qed

lemma rmatch_Seq_iff:
  "st \<in> set (rmatch ic (Seq a b) st0) \<longleftrightarrow> (\<exists>st1\<in>set (rmatch ic a st0). st \<in> set (rmatch ic b st1))"
  by auto

lemma rmatch_Bol_start: "rmatch ic Bol (0, s, g) = [(0, s, g)]"
  by simp

lemma version_pattern_shape:
  assumes "re_match False version_pattern s \<noteq> None"
  shows "\<exists>ds1 ds2 e. ds1 \<noteq> [] \<and> list_all is_digit ds1 \<and> ds2 \<noteq> [] \<and> list_all is_digit ds2
           \<and> (e = [] \<or> e = [newline]) \<and> s = ds1 @ CHR ''.'' # ds2 @ e"
proof -
  let ?P = "Plus (Cls [Digit])"
  from assms have "rmatch False version_pattern (0, s, []) \<noteq> []"
    by (auto simp: re_match_def match_at_def split: list.splits)
  then obtain st4 where "st4 \<in> set (rmatch False version_pattern (0, s, []))"
    by (cases "rmatch False version_pattern (0, s, [])") auto
  then have "\<exists>st0\<in>set (rmatch False Bol (0, s, [])).
           \<exists>st1\<in>set (rmatch False ?P st0).
           \<exists>st2\<in>set (rmatch False (Lit CHR ''.'') st1).
           \<exists>st3\<in>set (rmatch False ?P st2). st4 \<in> set (rmatch False Eol st3)"
    unfolding version_pattern_def by (simp only: rmatch_Seq_iff)
  then obtain st1 st2 st3 where
    s1: "st1 \<in> set (rmatch False ?P (0, s, []))"
    and s2: "st2 \<in> set (rmatch False (Lit CHR ''.'') st1)"
    and s3: "st3 \<in> set (rmatch False ?P st2)"
    and s4: "st4 \<in> set (rmatch False Eol st3)"
    by (simp only: rmatch_Bol_start list.set bex_simps) blast
  obtain i1 r1 g1 where st1: "st1 = (i1, r1, g1)" by (cases st1)
  obtain i2 r2 g2 where st2: "st2 = (i2, r2, g2)" by (cases st2)
  obtain i3 r3 g3 where st3: "st3 = (i3, r3, g3)" by (cases st3)
  from plus_digit_shape[OF s1] st1 obtain ds1 where
    d1: "ds1 \<noteq> []" "list_all is_digit ds1" "s = ds1 @ r1" by auto
  from s2 st1 st2 have r1: "r1 = CHR ''.'' # r2"
    by (auto simp: chr_eq_def split: list.splits if_splits)
  from s3 have s3': "st3 \<in> set (rmatch False ?P (i2, r2, g2))"
    by (simp only: st2)
  from plus_digit_shape[OF s3'] st3 obtain ds2 where
    d2: "ds2 \<noteq> []" "list_all is_digit ds2" "r2 = ds2 @ r3" by auto
  from s4 st3 have e: "r3 = [] \<or> r3 = [newline]"
    by (auto split: if_splits)
  from d1 d2 e have "ds1 \<noteq> [] \<and> list_all is_digit ds1 \<and> ds2 \<noteq> [] \<and> list_all is_digit ds2
      \<and> (r3 = [] \<or> r3 = [newline]) \<and> s = ds1 @ CHR ''.'' # ds2 @ r3"
    by (simp add: r1)
  then show ?thesis by blast
qed

lemma str_split_at: "c \<notin> set xs \<Longrightarrow> str_split c (xs @ c # ys) = xs # str_split c ys"
  by (induction xs) auto

lemma digits_no_dot: "list_all is_digit ds \<Longrightarrow> CHR ''.'' \<notin> set ds"
  using digit_facts(2) by (auto simp: list_all_iff)

lemma dropWhile_space_digits:
  "ds \<noteq> [] \<Longrightarrow> list_all is_digit ds \<Longrightarrow> dropWhile is_space (ds @ e) = ds @ e"
  by (cases ds) (auto simp: digit_facts(1))

lemma str_strip_digits:
  assumes "ds \<noteq> []" "list_all is_digit ds" "e = [] \<or> e = [newline]"
  shows "str_strip (ds @ e) = ds"
proof -
  obtain x xs where r: "rev ds = x # xs"
    using assms(1) by (cases "rev ds") auto
  then have "x \<in> set ds" by (metis list.set_intros(1) set_rev)
  with assms(2) have x: "\<not> is_space x" by (auto simp: list_all_iff digit_facts(1))
  have nl: "is_space newline" by (simp add: is_space_def newline_def)
  from assms(3) have "dropWhile is_space (rev (ds @ e)) = rev ds"
    using r x nl by auto
  then show ?thesis
    using assms by (simp add: str_strip_def dropWhile_space_digits)
qed

lemma int_digits_all: "ds \<noteq> [] \<Longrightarrow> list_all is_digit ds \<Longrightarrow> int_digits ds = Some ds"
  by (induction ds rule: int_digits.induct) (auto simp: digit_facts(5))

lemma py_int_digits:
  assumes "ds \<noteq> []" "list_all is_digit ds" "e = [] \<or> e = [newline]"
  shows "py_int (ds @ e) = Inr (int (digits_value ds))"
proof -
  obtain c cs where ds: "ds = c # cs" using assms(1) by (cases ds) auto
  with assms(2) have "c \<noteq> CHR ''-''" "c \<noteq> CHR ''+''"
    by (auto simp: digit_facts)
  moreover have s: "str_strip (ds @ e) = ds"
    using assms by (rule str_strip_digits)
  moreover have "int_digits (c # cs) = Some (c # cs)"
    using assms ds int_digits_all[of ds] by simp
  ultimately show ?thesis
    unfolding py_int_def s Let_def using ds by (simp del: int_digits.simps)
qed

text \<open>A name admitted by the pattern always gives a key of two integers.\<close>

lemma version_key_pair:
  assumes "re_match False version_pattern (path_name d) \<noteq> None"
  shows "\<exists>a b. version_key d = Inr [a, b]"
proof -
  from version_pattern_shape[OF assms] obtain ds1 ds2 e where
    d1: "ds1 \<noteq> []" "list_all is_digit ds1" and d2: "ds2 \<noteq> []" "list_all is_digit ds2"
    and e: "e = [] \<or> e = [newline]" and n: "path_name d = ds1 @ CHR ''.'' # ds2 @ e"
    by blast
  from e d2 have "CHR ''.'' \<notin> set (ds2 @ e)"
    using digits_no_dot[of ds2] by (auto simp: newline_def)
  then have "str_split CHR ''.'' (path_name d) = [ds1, ds2 @ e]"
    using n d1 digits_no_dot[of ds1] by (simp add: str_split_at str_split_notin)
  then show ?thesis
    using py_int_digits[OF d1, of "[]"] py_int_digits[OF d2 e]
    by (simp add: version_key_def)
qed

subsection \<open>The filter and the maximum\<close>

lemma filter_versions_ok:
  "\<forall>d\<in>set ds. \<exists>b. is_dir fs (path_str Nt d) = Inr b \<Longrightarrow>
   filter_versions fs ds =
     Inr (filter (\<lambda>d. is_dir fs (path_str Nt d) = Inr True
                       \<and> re_match False version_pattern (path_name d) \<noteq> None) ds)"
  by (induction ds) auto

lemma not_newer_refl: "version_key d = Inr [a, b] \<Longrightarrow> not_newer d d"
  by (simp add: not_newer_def)

lemma not_newer_trans: "not_newer d1 d2 \<Longrightarrow> not_newer d2 d3 \<Longrightarrow> not_newer d1 d3"
  by (auto simp: not_newer_def)

lemma max_loop_greatest:
  assumes "\<forall>d\<in>set ds. \<exists>a b. version_key d = Inr [a, b]"
    and "version_key best = Inr [x, y]"
  shows "\<exists>m. max_loop best [x, y] ds = Inr m \<and> m \<in> set (best # ds)
             \<and> (\<forall>d'\<in>set (best # ds). not_newer d' m)"
  using assms
proof (induction ds arbitrary: best x y)
  case Nil
  then show ?case by (simp add: not_newer_refl)
next
  case (Cons d ds)
  from Cons.prems obtain a b where k: "version_key d = Inr [a, b]" by auto
  from Cons.prems have rest: "\<forall>d\<in>set ds. \<exists>a b. version_key d = Inr [a, b]" by simp
  show ?case
  proof (cases "tuple_less [x, y] [a, b]")
    case True
    from Cons.IH[OF rest k] obtain m where
      m: "max_loop d [a, b] ds = Inr m" "m \<in> set (d # ds)" "\<forall>d'\<in>set (d # ds). not_newer d' m"
      by blast
    from True k Cons.prems(2) have "not_newer best d"
      by (auto simp: not_newer_def)
    with m(3) have "not_newer best m"
      using not_newer_trans[of best d m] by simp
    with m k True show ?thesis by simp
  next
    case False
    from Cons.IH[OF rest Cons.prems(2)] obtain m where
      m: "max_loop best [x, y] ds = Inr m" "m \<in> set (best # ds)"
        "\<forall>d'\<in>set (best # ds). not_newer d' m"
      by blast
    from False k Cons.prems(2) have "not_newer d best"
      by (auto simp: not_newer_def)
    with m(3) have "not_newer d m"
      using not_newer_trans[of d best m] by simp
    with m k False show ?thesis by auto
  qed
qed

lemma max_by_key_greatest:
  assumes "\<forall>d\<in>set versions. \<exists>a b. version_key d = Inr [a, b]" and "versions \<noteq> []"
  shows "\<exists>m\<in>set versions. max_by_key versions = Inr m \<and> (\<forall>d'\<in>set versions. not_newer d' m)"
proof -
  from assms(2) obtain d ds where v: "versions = d # ds" by (cases versions) auto
  with assms(1) obtain x y where k: "version_key d = Inr [x, y]" by auto
  from assms(1) v have "\<forall>d\<in>set ds. \<exists>a b. version_key d = Inr [a, b]" by simp
  from max_loop_greatest[OF this k] show ?thesis
    using v k by (auto simp: max_by_key_def)
qed

subsection \<open>Discovery\<close>

text \<open>
  Claim C5, as amended. When the root can be listed and \<^verbatim>\<open>is_dir\<close> raises for none of its
  entries, discovery looks at the entries that are directories and whose name matches
  \<^verbatim>\<open>^\d+\.\d+$\<close>. If there is one, it returns \<^verbatim>\<open>d / "bin"\<close> for such a directory \<open>d\<close>
  whose (major, minor) pair is numerically greatest among them. If there is none, the
  \<^verbatim>\<open>ValueError\<close> that \<^verbatim>\<open>max\<close> raises on an empty sequence comes out as it is. On Windows
  both globals of the module are the result of discovery under
  \<^verbatim>\<open>C:/Program Files/AMD/ROCm\<close>, and its error is the error of the import.
\<close>

theorem latest_rocm_bin:
  assumes "listdir fs (path_str Nt (Path Nt dir)) = Inr entries"
    and "\<forall>e\<in>set entries. \<exists>b. is_dir fs (path_str Nt (path_child (Path Nt dir) e)) = Inr b"
  shows
    "(version_dirs fs (Path Nt dir) entries \<noteq> [] \<longrightarrow>
        (\<exists>d\<in>set (version_dirs fs (Path Nt dir) entries).
           windowsLatestRocmBin fs dir = Inr (path_div Nt d ''bin'')
           \<and> (\<forall>d'\<in>set (version_dirs fs (Path Nt dir) entries). not_newer d' d)))
     \<and> (version_dirs fs (Path Nt dir) entries = [] \<longrightarrow>
        windowsLatestRocmBin fs dir = Inl (ValueError ''max() iterable argument is empty''))
     \<and> module_globals Nt fs =
        (case windowsLatestRocmBin fs ''C:/Program Files/AMD/ROCm'' of
           Inl e \<Rightarrow> Inl e
         | Inr b \<Rightarrow> Inr \<lparr>ROCM_BIN_PATH = b, ROCM_LLVM_BIN_PATH = b\<rparr>)"
proof -
  let ?vs = "version_dirs fs (Path Nt dir) entries"
  from assms(2) have
    "\<forall>d\<in>set (map (path_child (Path Nt dir)) entries). \<exists>b. is_dir fs (path_str Nt d) = Inr b"
    by simp
  then have f: "filter_versions fs (map (path_child (Path Nt dir)) entries) = Inr ?vs"
    unfolding version_dirs_def by (rule filter_versions_ok)
  have w: "windowsLatestRocmBin fs dir =
      (case max_by_key ?vs of Inl e \<Rightarrow> Inl e | Inr latest \<Rightarrow> Inr (path_div Nt latest ''bin''))"
    using assms(1) f by (simp add: windowsLatestRocmBin_def)
  have keys: "\<forall>d\<in>set ?vs. \<exists>a b. version_key d = Inr [a, b]"
    by (auto simp: version_dirs_def intro: version_key_pair)
  have some: "\<exists>d\<in>set ?vs. windowsLatestRocmBin fs dir = Inr (path_div Nt d ''bin'')
                \<and> (\<forall>d'\<in>set ?vs. not_newer d' d)" if "?vs \<noteq> []"
  proof -
    from max_by_key_greatest[OF keys that] obtain m where
      "m \<in> set ?vs" "max_by_key ?vs = Inr m" "\<forall>d'\<in>set ?vs. not_newer d' m" by blast
    then show ?thesis using w by auto
  qed
  have none: "windowsLatestRocmBin fs dir = Inl (ValueError ''max() iterable argument is empty'')"
    if "?vs = []"
    using that w by (simp add: max_by_key_def)
  have g: "module_globals Nt fs =
        (case windowsLatestRocmBin fs ''C:/Program Files/AMD/ROCm'' of
           Inl e \<Rightarrow> Inl e
         | Inr b \<Rightarrow> Inr \<lparr>ROCM_BIN_PATH = b, ROCM_LLVM_BIN_PATH = b\<rparr>)"
    by (simp add: module_globals_def os_name_def split: sum.splits)
  from some none g show ?thesis by blast
qed

theorem latest_rocm_bin_witness:
  "version_dirs fs_three_versions (Path Nt ''C:/Program Files/AMD/ROCm'')
       [''9.5'', ''10.0'', ''9.8'', ''readme.txt'']
     = map (path_child (Path Nt ''C:/Program Files/AMD/ROCm'')) [''9.5'', ''10.0'', ''9.8'']
   \<and> (\<exists>d\<in>set (version_dirs fs_three_versions (Path Nt ''C:/Program Files/AMD/ROCm'')
                  [''9.5'', ''10.0'', ''9.8'', ''readme.txt'']).
         windowsLatestRocmBin fs_three_versions ''C:/Program Files/AMD/ROCm''
           = Inr (path_div Nt d ''bin'')
         \<and> not_newer (path_child (Path Nt ''C:/Program Files/AMD/ROCm'') ''9.5'') d
         \<and> not_newer (path_child (Path Nt ''C:/Program Files/AMD/ROCm'') ''10.0'') d
         \<and> not_newer (path_child (Path Nt ''C:/Program Files/AMD/ROCm'') ''9.8'') d)
   \<and> windowsLatestRocmBin fs_three_versions ''C:/Program Files/AMD/ROCm''
       = Inr (Path Nt ''C:/Program Files/AMD/ROCm/10.0/bin'')
   \<and> path_str Nt (Path Nt ''C:/Program Files/AMD/ROCm/10.0/bin'')
       = ''C:'' @ [bslash] @ ''Program Files'' @ [bslash] @ ''AMD'' @ [bslash] @ ''ROCm''
         @ [bslash] @ ''10.0'' @ [bslash] @ ''bin''"
proof -
  let ?R = "''C:/Program Files/AMD/ROCm''"
  let ?es = "[''9.5'', ''10.0'', ''9.8'', ''readme.txt'']"
  have l: "listdir fs_three_versions (path_str Nt (Path Nt ?R)) = Inr ?es"
    by (simp add: fs_three_versions_def)
  have i: "\<forall>e\<in>set ?es. \<exists>b.
      is_dir fs_three_versions (path_str Nt (path_child (Path Nt ?R) e)) = Inr b"
    by (simp add: fs_three_versions_def)
  have v: "version_dirs fs_three_versions (Path Nt ?R) ?es
      = map (path_child (Path Nt ?R)) [''9.5'', ''10.0'', ''9.8'']"
    by code_simp
  then have ne: "version_dirs fs_three_versions (Path Nt ?R) ?es \<noteq> []" by simp
  from latest_rocm_bin[OF l i] ne have
    "\<exists>d\<in>set (version_dirs fs_three_versions (Path Nt ?R) ?es).
        windowsLatestRocmBin fs_three_versions ?R = Inr (path_div Nt d ''bin'')
        \<and> (\<forall>d'\<in>set (version_dirs fs_three_versions (Path Nt ?R) ?es). not_newer d' d)"
    by blast
  then have ex: "\<exists>d\<in>set (version_dirs fs_three_versions (Path Nt ?R) ?es).
        windowsLatestRocmBin fs_three_versions ?R = Inr (path_div Nt d ''bin'')
        \<and> not_newer (path_child (Path Nt ?R) ''9.5'') d
        \<and> not_newer (path_child (Path Nt ?R) ''10.0'') d
        \<and> not_newer (path_child (Path Nt ?R) ''9.8'') d"
    unfolding v by auto
  have r: "windowsLatestRocmBin fs_three_versions ?R
      = Inr (Path Nt ''C:/Program Files/AMD/ROCm/10.0/bin'')"
    by code_simp
  have s: "path_str Nt (Path Nt ''C:/Program Files/AMD/ROCm/10.0/bin'')
       = ''C:'' @ [bslash] @ ''Program Files'' @ [bslash] @ ''AMD'' @ [bslash] @ ''ROCm''
         @ [bslash] @ ''10.0'' @ [bslash] @ ''bin''"
    by code_simp
  from v ex r s show ?thesis by blast
qed

text \<open>
  The claim as stated fails where no entry of the root matches: what comes out is the
  \<^verbatim>\<open>ValueError\<close> of \<^verbatim>\<open>max\<close> on an empty sequence itself, of the same class as the
  resolver's own errors, and it ends the import of the module.
\<close>

theorem discovery_empty_counterexample:
  "version_dirs fs_no_versions (Path Nt ''C:/Program Files/AMD/ROCm'') [''docs'', ''latest''] = []
   \<and> windowsLatestRocmBin fs_no_versions ''C:/Program Files/AMD/ROCm''
       = Inl (ValueError ''max() iterable argument is empty'')
   \<and> module_globals Nt fs_no_versions = Inl (ValueError ''max() iterable argument is empty'')"
  by code_simp

section \<open>The version extractor\<close>










text \<open>
  Claim C7, as amended. Whatever is raised inside the \<^verbatim>\<open>try\<close> (by \<^verbatim>\<open>run\<close> when the
  shell cannot be started, by the decoding of the output, by \<^verbatim>\<open>group(1)\<close> on a pattern
  without a group) comes out as one \<^verbatim>\<open>RuntimeError\<close> whose message holds the command line,
  and with it the executable and the flag, followed by the text of the cause; no other
  error leaves the function. An exit status is not a failure: once the shell has run the
  command and its output decodes, a pattern with a group 1 always gives a value.
\<close>

theorem version_query_wraps_failures:
  "(\<forall>e. run (version_args executable versionFlag) = Inl e \<longrightarrow>
        getVersion run executable versionFlag regex =
          Inl (RuntimeError (''Failed to get version when calling ''
                 @ version_args executable versionFlag @ '': '' @ error_str e)))
   \<and> (\<forall>proc e. run (version_args executable versionFlag) = Inr proc
           \<and> stdout_decode proc = Inl e \<longrightarrow>
        getVersion run executable versionFlag regex =
          Inl (RuntimeError (''Failed to get version when calling ''
                 @ version_args executable versionFlag @ '': '' @ error_str e)))
   \<and> (\<forall>err. getVersion run executable versionFlag regex = Inl err \<longrightarrow>
        (\<exists>cause. err = RuntimeError (''Failed to get version when calling ''
                 @ version_args executable versionFlag @ '': '' @ cause)))
   \<and> sublist executable (version_args executable versionFlag)
   \<and> sublist versionFlag (version_args executable versionFlag)
   \<and> (\<forall>proc out_text. run (version_args executable versionFlag) = Inr proc
           \<and> stdout_decode proc = Inr out_text \<and> 1 \<in> set (group_ids regex) \<longrightarrow>
        (\<exists>v. getVersion run executable versionFlag regex = Inr v))"
proof -
  have a: "getVersion run executable versionFlag regex =
          Inl (RuntimeError (''Failed to get version when calling ''
                 @ version_args executable versionFlag @ '': '' @ error_str e))"
    if "run (version_args executable versionFlag) = Inl e" for e
    using that by (simp add: getVersion_def getVersion_try_def)
  have b: "getVersion run executable versionFlag regex =
          Inl (RuntimeError (''Failed to get version when calling ''
                 @ version_args executable versionFlag @ '': '' @ error_str e))"
    if "run (version_args executable versionFlag) = Inr proc" "stdout_decode proc = Inl e"
    for proc e
    using that by (simp add: getVersion_def getVersion_try_def)
  have c: "\<exists>cause. err = RuntimeError (''Failed to get version when calling ''
                 @ version_args executable versionFlag @ '': '' @ cause)"
    if "getVersion run executable versionFlag regex = Inl err" for err
    using that by (auto simp: getVersion_def Let_def split: sum.splits)
  have d: "sublist executable (version_args executable versionFlag)"
    unfolding version_args_def by (rule sublist_middle)
  have "sublist versionFlag
      (([dquote] @ executable @ [dquote] @ '' '' @ [dquote]) @ versionFlag @ [dquote])"
    by (rule sublist_middle)
  then have e: "sublist versionFlag (version_args executable versionFlag)"
    by (simp add: version_args_def)
  have f: "\<exists>v. getVersion run executable versionFlag regex = Inr v"
    if "run (version_args executable versionFlag) = Inr proc" "stdout_decode proc = Inr out_text"
      "1 \<in> set (group_ids regex)" for proc out_text
    using that
    by (simp add: getVersion_def getVersion_try_def m_group_def Let_def split: option.splits)
  from a b c d e f show ?thesis by blast
qed

theorem version_query_wraps_failures_witness:
  "getVersion shell_cannot_start ''amdclang++'' ''--version'' default_regex =
     Inl (RuntimeError (''Failed to get version when calling ''
            @ [dquote] @ ''amdclang++'' @ [dquote] @ '' '' @ [dquote] @ ''--version'' @ [dquote]
            @ '': [Errno 12] Cannot allocate memory''))
   \<and> getVersion shell_bad_output ''amdclang++'' ''--version'' default_regex =
     Inl (RuntimeError (''Failed to get version when calling ''
            @ [dquote] @ ''amdclang++'' @ [dquote] @ '' '' @ [dquote] @ ''--version'' @ [dquote]
            @ '': invalid start byte''))"
proof -
  let ?a = "version_args ''amdclang++'' ''--version''"
  have s: "shell_cannot_start ?a = Inl (EnvError ''[Errno 12] Cannot allocate memory'')"
    by (simp add: shell_cannot_start_def)
  have t: "shell_bad_output ?a = Inr \<lparr>returncode = 0, stdout_decode = Inl (EnvError ''invalid start byte'')\<rparr>
      \<and> stdout_decode \<lparr>returncode = 0, stdout_decode = Inl (EnvError ''invalid start byte'')\<rparr>
          = Inl (EnvError ''invalid start byte'')"
    by (simp add: shell_bad_output_def)
  note A = version_query_wraps_failures[of shell_cannot_start "''amdclang++''" "''--version''"
      default_regex]
  note B = version_query_wraps_failures[of shell_bad_output "''amdclang++''" "''--version''"
      default_regex]
  from conjunct1[OF A] s have first:
    "getVersion shell_cannot_start ''amdclang++'' ''--version'' default_regex =
       Inl (RuntimeError (''Failed to get version when calling '' @ ?a @ '': ''
              @ error_str (EnvError ''[Errno 12] Cannot allocate memory'')))"
    by blast
  from conjunct1[OF conjunct2[OF B]] t have second:
    "getVersion shell_bad_output ''amdclang++'' ''--version'' default_regex =
       Inl (RuntimeError (''Failed to get version when calling '' @ ?a @ '': ''
              @ error_str (EnvError ''invalid start byte'')))"
    by blast
  show ?thesis
    unfolding first second by (simp add: version_args_def)
qed

text \<open>
  The claim as stated fails for a missing executable. The command line goes to the shell;
  the shell starts, finds no such command and exits with status 127, which \<^verbatim>\<open>run\<close>
  returns without raising. Standard output is empty, the pattern finds nothing, and the
  result is \<^verbatim>\<open>"<unknown>"\<close>: no error at all.
\<close>

theorem missing_executable_counterexample:
  "getVersion shell_missing_executable ''no-such-compiler'' ''--version'' default_regex
     = Inr (Some ''<unknown>'')
   \<and> (\<forall>err. getVersion shell_missing_executable ''no-such-compiler'' ''--version'' default_regex
          \<noteq> Inl err)"
proof -
  have "getVersion shell_missing_executable ''no-such-compiler'' ''--version'' default_regex
     = Inr (Some ''<unknown>'')"
    by code_simp
  then show ?thesis by simp
qed

end
